theory Spec2Isabelle
  imports Main "HOL-Library.Sublist"
begin

section \<open>Strings, errors and the key-value store\<close>

text \<open>
  Go strings are byte sequences; they are modelled as \<open>string\<close> (a list of \<open>char\<close>).
  \<open>strings.HasPrefix\<close> and \<open>strings.Contains\<close> are the two library predicates
  the engine uses on them.
\<close>

definition HasPrefix :: "string \<Rightarrow> string \<Rightarrow> bool" where
  "HasPrefix s pre = prefix pre s"

fun Contains :: "string \<Rightarrow> string \<Rightarrow> bool" where
  "Contains [] substr = (substr = [])"
| "Contains (c # s) substr = (prefix substr (c # s) \<or> Contains s substr)"

text \<open>
  Error values. \<open>fmt.Errorf\<close> yields an error carrying its formatted message,
  \<open>errors.Join\<close> wraps a non-empty list of errors and returns nil for an empty one.
\<close>

datatype error =
    Errorf string
  | joinError "error list"
  | PrefixedError string error

definition errors_Join :: "error list \<Rightarrow> error option" where
  "errors_Join errs = (if errs = [] then None else Some (joinError errs))"

text \<open>
  Modelled from the spec: \<open>NewPrefixedError\<close> (file \<open>pkg/engine/errors.go\<close>, not part
  of the sources at hand). The spec describes it as the utility that joins the underlying
  errors under a labelled prefix; \<open>TestCallback.Run\<close> passes it the result of
  \<open>errors.Join\<close> of a possibly empty list and relies on nil for nil.
\<close>

definition NewPrefixedError :: "string \<Rightarrow> error option \<Rightarrow> error option" where
  "NewPrefixedError pre err = (case err of None \<Rightarrow> None | Some e \<Rightarrow> Some (PrefixedError pre e))"

text \<open>The store of \<open>teststorage.SafeMap\<close>: a map from keys to values; \<open>Get\<close>
  returns the value (the zero string when absent) and whether the key was found.\<close>

type_synonym Storage = "string \<rightharpoonup> string"

definition Set :: "Storage \<Rightarrow> string \<Rightarrow> string \<Rightarrow> Storage" where
  "Set db k v = db(k \<mapsto> v)"

definition Get :: "Storage \<Rightarrow> string \<Rightarrow> string \<times> bool" where
  "Get db k = (case db k of None \<Rightarrow> ([], False) | Some r \<Rightarrow> (r, True))"

text \<open>The verbs of \<open>fmt\<close> used on a possibly nil error (given by its message) and on a bool.\<close>

fun fmt_v_error :: "string option \<Rightarrow> string" where
  "fmt_v_error None = ''<nil>''"
| "fmt_v_error (Some msg) = msg"

fun fmt_v_bool :: "bool \<Rightarrow> string" where
  "fmt_v_bool True = ''true''"
| "fmt_v_bool False = ''false''"

section \<open>Assertions (\<open>pkg/engine/test.go\<close>)\<close>

record Assertion =
  Output :: "string list"
  Errors :: "string list"
  Dynamic :: "string list"
  Strict :: bool
  Pattern :: "string list"

record Assertions =
  WantErr :: bool
  CanError :: bool
  CanErrorWithMessage :: "string list"
  Must :: Assertion
  MustNot :: Assertion

text \<open>A Go call either returns or panics (here: a nil pointer dereference).\<close>

datatype 'a outcome = Panic | Return 'a

subsection \<open>\<open>assertWanted\<close>\<close>

fun assertWanted_loop :: "string \<Rightarrow> Assertion \<Rightarrow> string list \<Rightarrow> error list \<Rightarrow> error list" where
  "assertWanted_loop out w [] errs = errs"
| "assertWanted_loop out w (want # rest) errs =
     (let errs1 = (if Strict w \<and> out \<noteq> want
                   then errs @ [Errorf (''strict match got \"'' @ out @ ''\" want \"'' @ want @ ''\"'')]
                   else errs);
          errs2 = (if \<not> Strict w \<and> \<not> Contains out want
                   then errs1 @ [Errorf (''didn't find \"'' @ want @ ''\" in standard output: \"'' @ out @ ''\"'')]
                   else errs1)
      in assertWanted_loop out w rest errs2)"

definition assertWanted :: "string \<Rightarrow> Assertion \<Rightarrow> error option" where
  "assertWanted out w =
     (let errs = assertWanted_loop out w (Output w) []
      in if length errs > 0 then NewPrefixedError ''must find'' (errors_Join errs) else None)"

subsection \<open>\<open>assertPattern\<close>\<close>

text \<open>
  The regular-expression engine is Go's \<open>regexp\<close> package; it is a parameter of the
  model: \<open>Compile\<close> gives the compiled expression, or \<open>None\<close> when the pattern does
  not compile (Go then returns a nil \<open>*Regexp\<close> with the error), and
  \<open>FindStringIndex\<close> gives the location of the leftmost match, if any.
  Calling \<open>FindStringIndex\<close> on the nil \<open>*Regexp\<close> dereferences it and panics.
\<close>

fun assertPattern_loop ::
  "(string \<Rightarrow> 're option) \<Rightarrow> ('re \<Rightarrow> string \<Rightarrow> (nat \<times> nat) option) \<Rightarrow>
   string \<Rightarrow> string list \<Rightarrow> error list \<Rightarrow> error list outcome" where
  "assertPattern_loop Compile FindStringIndex out [] errs = Return errs"
| "assertPattern_loop Compile FindStringIndex out (pattern # rest) errs =
     (let re = Compile pattern;
          errs1 = (if re = None
                   then errs @ [Errorf (''match pattern \"'' @ pattern @ ''\" did not compile'')]
                   else errs)
      in case re of
           None \<Rightarrow> Panic
         | Some r \<Rightarrow>
             assertPattern_loop Compile FindStringIndex out rest
               (if FindStringIndex r out = None
                then errs1 @ [Errorf (''couldn't match pattern \"'' @ pattern @
                                      ''\" to standard output: \"'' @ out @ ''\"'')]
                else errs1))"

definition assertPattern ::
  "(string \<Rightarrow> 're option) \<Rightarrow> ('re \<Rightarrow> string \<Rightarrow> (nat \<times> nat) option) \<Rightarrow>
   string \<Rightarrow> string list \<Rightarrow> error option outcome" where
  "assertPattern Compile FindStringIndex out patterns =
     (case assertPattern_loop Compile FindStringIndex out patterns [] of
        Panic \<Rightarrow> Panic
      | Return errs \<Rightarrow>
          Return (if length errs > 0
                  then NewPrefixedError ''must find pattern'' (errors_Join errs) else None))"

subsection \<open>\<open>assertErrors\<close>\<close>

fun assertErrors_loop :: "string \<Rightarrow> string list \<Rightarrow> error list \<Rightarrow> error list" where
  "assertErrors_loop stderr [] errs = errs"
| "assertErrors_loop stderr (want # rest) errs =
     assertErrors_loop stderr rest
       (if \<not> Contains stderr want
        then errs @ [Errorf (''didn't find \"'' @ want @ ''\" in standard error: \"'' @ stderr @ ''\"'')]
        else errs)"

definition assertErrors :: "string \<Rightarrow> string list \<Rightarrow> error option" where
  "assertErrors stderr errrs =
     (let errs = assertErrors_loop stderr errrs []
      in if length errs > 0 then NewPrefixedError ''must find errors'' (errors_Join errs) else None)"

subsection \<open>\<open>assertDynamic\<close>\<close>

definition dynamicValue :: "Storage \<Rightarrow> string \<Rightarrow> string" where
  "dynamicValue storage key = (case Get storage key of (v, ok) \<Rightarrow> if ok then v else key)"

fun assertDynamic_loop :: "string \<Rightarrow> string list \<Rightarrow> Storage \<Rightarrow> error list \<Rightarrow> error list" where
  "assertDynamic_loop out [] storage errs = errs"
| "assertDynamic_loop out (key # rest) storage errs =
     (let val = dynamicValue storage key
      in assertDynamic_loop out rest storage
           (if \<not> Contains out val
            then errs @ [Errorf (''didn't find dynamic key \"'' @ key @ ''\" with value \"'' @ val @
                                 ''\" in standard output: \"'' @ out @ ''\"'')]
            else errs))"

definition assertDynamic :: "string \<Rightarrow> string list \<Rightarrow> Storage \<Rightarrow> error option" where
  "assertDynamic out dynamic storage =
     (let errs = assertDynamic_loop out dynamic storage []
      in if length errs > 0
         then NewPrefixedError ''must find values from dynamic storage'' (errors_Join errs)
         else None)"

subsection \<open>\<open>assertMustNot\<close>\<close>

fun assertMustNot_output :: "string \<Rightarrow> Assertion \<Rightarrow> string list \<Rightarrow> error list \<Rightarrow> error list" where
  "assertMustNot_output out notA [] errs = errs"
| "assertMustNot_output out notA (mustNot # rest) errs =
     (let errs1 = (if Strict notA \<and> out = mustNot
                   then errs @ [Errorf (''strict match got \"'' @ out @ ''\" must not: \"'' @ mustNot @ ''\"'')]
                   else errs);
          errs2 = (if \<not> Strict notA \<and> Contains out mustNot
                   then errs1 @ [Errorf (''found \"'' @ mustNot @ ''\" in standard output: \"'' @ out @ ''\"'')]
                   else errs1)
      in assertMustNot_output out notA rest errs2)"

fun assertMustNot_errors :: "string \<Rightarrow> string list \<Rightarrow> error list \<Rightarrow> error list" where
  "assertMustNot_errors stderr [] errs = errs"
| "assertMustNot_errors stderr (mustNot # rest) errs =
     assertMustNot_errors stderr rest
       (if Contains stderr mustNot
        then errs @ [Errorf (''found \"'' @ mustNot @ ''\" in standard error:\"'' @ stderr @ ''\"'')]
        else errs)"

definition assertMustNot :: "string \<Rightarrow> string \<Rightarrow> Assertion \<Rightarrow> error option" where
  "assertMustNot out stderr notA =
     (let errs = assertMustNot_errors stderr (Errors notA)
                   (assertMustNot_output out notA (Output notA) [])
      in if length errs > 0 then NewPrefixedError ''must not find values'' (errors_Join errs) else None)"

subsection \<open>\<open>Assertions.Ensure\<close>\<close>

text \<open>\<open>appendErr\<close> is the recurring \<open>if err != nil { errs = append(errs, err) }\<close>.\<close>

fun appendErr :: "error list \<Rightarrow> error option \<Rightarrow> error list" where
  "appendErr errs None = errs"
| "appendErr errs (Some e) = errs @ [e]"

definition ensureErrorMessage :: "string \<Rightarrow> string option \<Rightarrow> bool \<Rightarrow> string \<Rightarrow> string" where
  "ensureErrorMessage args err wantErr stderrString =
     ''command: \"'' @ args @ ''\"\<newline>error = '' @ fmt_v_error err @
     '', wantErr = '' @ fmt_v_bool wantErr @ '', stderr = '' @ stderrString"

definition Ensure ::
  "(string \<Rightarrow> 're option) \<Rightarrow> ('re \<Rightarrow> string \<Rightarrow> (nat \<times> nat) option) \<Rightarrow>
   Assertions \<Rightarrow> string \<Rightarrow> string \<Rightarrow> string option \<Rightarrow> Storage \<Rightarrow> string \<Rightarrow> error option outcome" where
  "Ensure Compile FindStringIndex a stdout stderr err storage args =
     (let stderrString = stderr in
      if (err \<noteq> None) \<noteq> WantErr a \<and> \<not> CanError a \<and> length (CanErrorWithMessage a) = 0
      then Return (Some (Errorf (ensureErrorMessage args err (WantErr a) stderrString)))
      else if list_ex (\<lambda>knownFailure. Contains stderrString knownFailure) (CanErrorWithMessage a)
      then Return None
      else
        (let out = stdout;
             errs1 = appendErr [] (assertWanted out (Must a))
         in case assertPattern Compile FindStringIndex out (Pattern (Must a)) of
              Panic \<Rightarrow> Panic
            | Return perr \<Rightarrow>
                (let errs2 = appendErr errs1 perr;
                     errs3 = appendErr errs2 (assertErrors stderr (Errors (Must a)));
                     errs4 = appendErr errs3 (assertDynamic out (Dynamic (Must a)) storage);
                     errs5 = appendErr errs4 (assertMustNot out stderrString (MustNot a))
                 in Return (if length errs5 > 0
                            then NewPrefixedError ''assertion'' (errors_Join errs5)
                            else None))))"

section \<open>Dynamic arguments (\<open>pkg/engine/execution.go\<close>)\<close>

text \<open>\<open>strings.Replace(s, old, new, 1)\<close>: the first occurrence of \<open>old\<close> is replaced.\<close>

fun Replace1 :: "string \<Rightarrow> string \<Rightarrow> string \<Rightarrow> string" where
  "Replace1 [] old new = (if old = [] then new else [])"
| "Replace1 (c # s) old new =
     (if prefix old (c # s) then new @ drop (length old) (c # s) else c # Replace1 s old new)"

text \<open>
  \<open>parseDynamicArguments\<close> returns the pair of Go's two results: the argument list
  (nil, that is empty, on failure) and the error (nil on success).
\<close>

fun parseDynamicArguments_loop ::
  "string list \<Rightarrow> Storage \<Rightarrow> string list \<Rightarrow> string list \<times> error option" where
  "parseDynamicArguments_loop [] storage result = (result, None)"
| "parseDynamicArguments_loop (key # rest) storage result =
     (let prefixedKey = (HasPrefix key ''-'' \<or> HasPrefix key ''strip_'') in
      if prefixedKey
      then (let key1 = (if HasPrefix key ''strip_'' then Replace1 key ''strip_'' [] else key)
            in parseDynamicArguments_loop rest storage (result @ [key1]))
      else (case Get storage key of
              (val, ok) \<Rightarrow>
                if \<not> ok
                then ([], Some (Errorf (''failed to obtain value of key '' @ key)))
                else parseDynamicArguments_loop rest storage (result @ [val])))"

definition parseDynamicArguments :: "string list \<Rightarrow> Storage \<Rightarrow> string list \<times> error option" where
  "parseDynamicArguments dynamicArgs storage = parseDynamicArguments_loop dynamicArgs storage []"

section \<open>Redaction of the password flag (\<open>pkg/engine/execution.go\<close>)\<close>

text \<open>
  \<open>redactPasswordFlag\<close> replaces every match of the regular expression
  \<^verbatim>\<open>(?m)\-\-pass?[ =]([^ ]+)\<close> by \<^verbatim>\<open>--pass [REDACTED]\<close>. The expression is
  interpreted as Go's \<open>regexp\<close> does: a match is the text \<^verbatim>\<open>--pas\<close>, an optional
  \<^verbatim>\<open>s\<close> (taken when the rest then matches), one space or \<^verbatim>\<open>=\<close>, and the longest
  non-empty run of characters other than the space (line breaks included).
  \<open>matchSepValue\<close> and \<open>matchPassFlag\<close> match at the start of their input and give
  the input left after the match.
\<close>

definition matchSepValue :: "string \<Rightarrow> string option" where
  "matchSepValue s =
     (case s of
        sep # v # rest \<Rightarrow>
          if (sep = CHR '' '' \<or> sep = CHR ''='') \<and> v \<noteq> CHR '' ''
          then Some (dropWhile (\<lambda>c. c \<noteq> CHR '' '') (v # rest))
          else None
      | _ \<Rightarrow> None)"

definition matchPassFlag :: "string \<Rightarrow> string option" where
  "matchPassFlag s =
     (if prefix ''--pas'' s
      then (let r = drop 5 s;
                withS = (case r of c # r' \<Rightarrow> if c = CHR ''s'' then matchSepValue r' else None
                                 | [] \<Rightarrow> None)
            in case withS of Some rest \<Rightarrow> Some rest | None \<Rightarrow> matchSepValue r)
      else None)"

text \<open>\<open>ReplaceAllString\<close>: the matches are taken from left to right and do not overlap.\<close>

function redactPasswordFlag :: "string \<Rightarrow> string" where
  "redactPasswordFlag [] = []"
| "redactPasswordFlag (c # cs) =
     (case matchPassFlag (c # cs) of
        Some rest \<Rightarrow> ''--pass [REDACTED]'' @ redactPasswordFlag rest
      | None \<Rightarrow> c # redactPasswordFlag cs)"
  by pat_completeness auto
termination
proof (relation "measure length")
  show "wf (measure length)"
    by simp
next
  fix c :: char and cs rest :: string
  assume m: "matchPassFlag (c # cs) = Some rest"
  have sep: "length t < length u" if "matchSepValue u = Some t" for t u
  proof -
    from that obtain s v w where "u = s # v # w" and "t = dropWhile (\<lambda>c. c \<noteq> CHR '' '') (v # w)"
      by (auto simp: matchSepValue_def split: list.splits if_splits)
    then show ?thesis
      using length_dropWhile_le [of "\<lambda>c. c \<noteq> CHR '' ''" "v # w"] by simp
  qed
  from m consider "matchSepValue (drop 5 (c # cs)) = Some rest"
    | r' where "drop 5 (c # cs) = CHR ''s'' # r'" and "matchSepValue r' = Some rest"
    by (auto simp: matchPassFlag_def Let_def split: if_splits option.splits list.splits)
  then have "length rest < length (c # cs)"
  proof cases
    case 1
    from sep [OF 1] show ?thesis
      by simp
  next
    case 2
    from 2(1) have "length (drop 5 (c # cs)) = Suc (length r')"
      by simp
    with sep [OF 2(2)] show ?thesis
      by simp
  qed
  then show "(rest, c # cs) \<in> measure length"
    by simp
next
  fix c :: char and cs :: string
  show "(cs, c # cs) \<in> measure length"
    by simp
qed

section \<open>The binary locator (\<open>pkg/engine/execution.go\<close>)\<close>

text \<open>
  The file system is a tree: a node is a directory with its named entries, in the order
  in which \<open>filepath.Walk\<close> reads them, or any other kind of file. All directories
  are readable. An absolute path is the list of names leading from the root to a node.
\<close>

datatype node = File | Directory "(string \<times> node) list"

fun isDir :: "node \<Rightarrow> bool" where
  "isDir File = False"
| "isDir (Directory entries) = True"

fun lookup :: "node \<Rightarrow> string list \<Rightarrow> node option" where
  "lookup n [] = Some n"
| "lookup File (name # names) = None"
| "lookup (Directory entries) (name # names) =
     (case map_of entries name of None \<Rightarrow> None | Some n \<Rightarrow> lookup n names)"

text \<open>\<open>info.Name()\<close>, \<open>filepath.Dir\<close>, \<open>filepath.Rel\<close> (of a path below its base) and
  \<open>filepath.Join\<close> (of a clean relative path onto \<^verbatim>\<open>..\<close>).\<close>

definition baseName :: "string list \<Rightarrow> string" where
  "baseName path = (if path = [] then ''/'' else last path)"

definition filepath_Dir :: "string list \<Rightarrow> string list" where
  "filepath_Dir p = butlast p"

fun joinNames :: "string list \<Rightarrow> string" where
  "joinNames [] = ''.''"
| "joinNames [name] = name"
| "joinNames (name # names) = name @ ''/'' @ joinNames names"

definition filepath_Rel :: "string list \<Rightarrow> string list \<Rightarrow> string" where
  "filepath_Rel p path = joinNames (drop (length p) path)"

definition filepath_Join :: "string \<Rightarrow> string \<Rightarrow> string" where
  "filepath_Join a b = (if b = [] \<or> b = ''.'' then a else a @ ''/'' @ b)"

text \<open>
  The function passed to \<open>filepath.Walk\<close>. It returns nil or \<open>filepath.SkipDir\<close>
  (\<open>filepath.Rel\<close> does not fail on a path below its base) and the value of the variable
  \<open>binaryPath\<close> it assigns to.
\<close>

datatype walkResult = Nil | SkipDir

definition walkFn ::
  "string list \<Rightarrow> string \<Rightarrow> string list \<Rightarrow> node \<Rightarrow> string \<Rightarrow> walkResult \<times> string" where
  "walkFn p binary path info binaryPath =
     (if baseName path = binary \<and> \<not> isDir info
      then (SkipDir, filepath_Rel p path)
      else (Nil, binaryPath))"

text \<open>
  \<open>filepath.Walk\<close>: a directory is visited before its entries; \<open>SkipDir\<close> returned for
  a file that is not a directory ends the walk of the directory that contains it, and the
  walk goes on after that directory.
\<close>

fun walk :: "string list \<Rightarrow> string \<Rightarrow> string list \<Rightarrow> node \<Rightarrow> string \<Rightarrow> walkResult \<times> string"
  and walkEntries ::
    "string list \<Rightarrow> string \<Rightarrow> string list \<Rightarrow> (string \<times> node) list \<Rightarrow> string \<Rightarrow> walkResult \<times> string"
  where
  "walk p binary path File binaryPath = walkFn p binary path File binaryPath"
| "walk p binary path (Directory entries) binaryPath =
     (case walkFn p binary path (Directory entries) binaryPath of
        (SkipDir, binaryPath1) \<Rightarrow> (SkipDir, binaryPath1)
      | (Nil, binaryPath1) \<Rightarrow> walkEntries p binary path entries binaryPath1)"
| "walkEntries p binary path [] binaryPath = (Nil, binaryPath)"
| "walkEntries p binary path ((name, n) # rest) binaryPath =
     (case walk p binary (path @ [name]) n binaryPath of
        (SkipDir, binaryPath1) \<Rightarrow>
          if \<not> isDir n then (SkipDir, binaryPath1)
          else walkEntries p binary path rest binaryPath1
      | (Nil, binaryPath1) \<Rightarrow> walkEntries p binary path rest binaryPath1)"

text \<open>
  \<open>Walk\<close> on a root that does not exist calls the function with a nil \<open>info\<close>, whose
  \<open>Name()\<close> panics. At the top, \<open>SkipDir\<close> becomes nil.
\<close>

definition Walk :: "node \<Rightarrow> string list \<Rightarrow> string \<Rightarrow> (error option \<times> string) outcome" where
  "Walk fs p binary =
     (case lookup fs p of
        None \<Rightarrow> Panic
      | Some n \<Rightarrow> Return (None, snd (walk p binary p n [])))"

text \<open>
  \<open>FindBinaryPath\<close>, on an absolute \<open>p\<close>. The recursion on the parent directory has no
  measure that decreases (the parent of the root is the root), so the function is
  partial: \<open>None\<close> stands for a call that does not return.
\<close>

partial_function (option) FindBinaryPath ::
  "node \<Rightarrow> string list \<Rightarrow> string \<Rightarrow> (string \<times> error option) outcome option" where
  "FindBinaryPath fs p binary =
     (case Walk fs p binary of
        Panic \<Rightarrow> Some Panic
      | Return (err, binaryPath) \<Rightarrow>
          if err \<noteq> None then Some (Return ([], err))
          else if binaryPath = []
          then Option.bind (FindBinaryPath fs (filepath_Dir p) binary)
                 (\<lambda>r. case r of
                         Panic \<Rightarrow> Some Panic
                       | Return (binaryPath1, err1) \<Rightarrow>
                           Some (Return (filepath_Join ''..'' binaryPath1, err1)))
          else Some (Return (binaryPath, None)))"

text \<open>Whether a file that is not a directory and has the given name exists in the tree
  below (and including) a node of a given name.\<close>

fun hasBinary :: "string \<Rightarrow> string \<Rightarrow> node \<Rightarrow> bool"
  and hasBinaryEntries :: "string \<Rightarrow> (string \<times> node) list \<Rightarrow> bool" where
  "hasBinary binary name File = (name = binary)"
| "hasBinary binary name (Directory entries) = hasBinaryEntries binary entries"
| "hasBinaryEntries binary [] = False"
| "hasBinaryEntries binary ((name, n) # rest) = (hasBinary binary name n \<or> hasBinaryEntries binary rest)"

section \<open>The process runner (\<open>pkg/engine/execution.go\<close>)\<close>

text \<open>
  What a test function observes of \<open>testing.T\<close>: whether the test has been marked as
  failed, and the log. \<open>t.Errorf\<close> logs and marks the test as failed, and the test
  function goes on; \<open>t.Fatalf\<close> logs, marks the test as failed and ends the test
  function on the spot (\<open>FailNow\<close>), so that the calling code does not run.
\<close>

record T =
  failed :: bool
  logs :: "string list"

datatype 'a testRun = FailNow T | Returns T 'a

definition T_Errorf :: "T \<Rightarrow> string \<Rightarrow> T" where
  "T_Errorf t msg = t\<lparr>failed := True, logs := logs t @ [msg]\<rparr>"

definition T_Fatalf :: "T \<Rightarrow> string \<Rightarrow> 'a testRun" where
  "T_Fatalf t msg = FailNow (t\<lparr>failed := True, logs := logs t @ [msg]\<rparr>)"

text \<open>
  What the operating system does with \<open>exec.Command(bin, args...)\<close>, as far as
  \<open>runCommand\<close> can tell: the outcome of \<open>cmd.Run()\<close> (the contents of the stdout and
  stderr buffers, and the error), the errors of \<open>cmd.StdinPipe()\<close> and of
  \<open>cmd.Start()\<close>, the contents of the two buffers when \<open>cmd.Start()\<close> has returned,
  and the outcome of \<open>cmd.Wait()\<close> after the given text has been written to stdin.
  Errors are given by their messages.
\<close>

record Cmd =
  cmdRun :: "string \<times> string \<times> string option"
  cmdStdinPipe :: "string option"
  cmdStart :: "string option"
  cmdStarted :: "string \<times> string"
  cmdWait :: "string \<Rightarrow> string \<times> string \<times> string option"

definition failRed :: string where
  "failRed = [CHR 0x1B] @ ''[31;1mFAIL'' @ [CHR 0x1B] @ ''[0m''"

text \<open>\<open>strings.Join\<close>, and the verb \<^verbatim>\<open>%d\<close> on an index of the list of tests.\<close>

fun strings_Join :: "string list \<Rightarrow> string \<Rightarrow> string" where
  "strings_Join [] sep = []"
| "strings_Join [x] sep = x"
| "strings_Join (x # y # ys) sep = x @ sep @ strings_Join (y # ys) sep"

fun fmt_d :: "nat \<Rightarrow> string" where
  "fmt_d n = (if n < 10 then [''0123456789'' ! n]
              else fmt_d (n div 10) @ [''0123456789'' ! (n mod 10)])"

declare fmt_d.simps [simp del]

definition fmt_Sprintln :: "string \<Rightarrow> string" where
  "fmt_Sprintln line = line @ ''\<newline>''"

definition runCommand ::
  "(string \<Rightarrow> string list \<Rightarrow> Cmd) \<Rightarrow> T \<Rightarrow> string \<Rightarrow> nat \<Rightarrow> string list \<Rightarrow> string list \<Rightarrow> bool \<Rightarrow>
   (string \<times> string \<times> string option) testRun" where
  "runCommand exec_Command t bin testN args interactive wantErr =
     (let cmd = exec_Command bin args in
      if length interactive = 0 then Returns t (cmdRun cmd)
      else
        (case cmdStdinPipe cmd of
           Some pipeErr \<Rightarrow>
             T_Fatalf t (''[Test '' @ fmt_d testN @ '']['' @ failRed @ '']: Command '' @ bin @
                         '': failed to create stdin pipe'')
         | None \<Rightarrow>
             (let err = cmdStart cmd in
              if (err \<noteq> None) \<noteq> wantErr
              then (let (stdout, stderr) = cmdStarted cmd;
                        printableArgs = redactPasswordFlag (strings_Join args '' '')
                    in Returns
                         (T_Errorf t (''[Test '' @ fmt_d testN @ '']['' @ failRed @ '']: Command '' @ bin @
                            '' '' @ printableArgs @ '' error = '' @ fmt_v_error err @
                            '', wantErr = '' @ fmt_v_bool wantErr @ '', stderr = '' @ stderr))
                         (stdout, stderr, err))
              else Returns t (cmdWait cmd (concat (map fmt_Sprintln interactive))))))"

section \<open>Properties of the assertion evaluator\<close>

subsection \<open>Auxiliary facts\<close>

lemma Contains_sublist: "Contains s substr \<longleftrightarrow> sublist substr s"
  by (induction s) (auto simp: sublist_Cons_right)

lemma NewPrefixedError_Join_None:
  "NewPrefixedError pre (errors_Join errs) = None \<longleftrightarrow> errs = []"
  by (simp add: NewPrefixedError_def errors_Join_def)

lemma assertWanted_loop_Nil:
  "assertWanted_loop out w wants errs = [] \<longleftrightarrow>
     errs = [] \<and> (\<forall>want \<in> set wants. if Strict w then out = want else Contains out want)"
  by (induction wants arbitrary: errs) (auto simp: Let_def)

lemma assertWanted_None:
  "assertWanted out w = None \<longleftrightarrow>
     (\<forall>want \<in> set (Output w). if Strict w then out = want else Contains out want)"
  by (simp add: assertWanted_def Let_def NewPrefixedError_Join_None assertWanted_loop_Nil)

lemma assertPattern_loop_Panic:
  "assertPattern_loop C F out patterns errs = Panic \<longleftrightarrow> (\<exists>p \<in> set patterns. C p = None)"
  by (induction patterns arbitrary: errs) (auto simp: Let_def split: option.splits)

lemma assertDynamic_loop_eq:
  "assertDynamic_loop out keys storage errs =
     errs @ map (\<lambda>key. Errorf (''didn't find dynamic key \"'' @ key @ ''\" with value \"'' @
                                (case storage key of Some v \<Rightarrow> v | None \<Rightarrow> key) @
                                ''\" in standard output: \"'' @ out @ ''\"''))
              (filter (\<lambda>key. \<not> sublist (case storage key of Some v \<Rightarrow> v | None \<Rightarrow> key) out) keys)"
  by (induction keys arbitrary: errs)
     (auto simp: Let_def dynamicValue_def Get_def Contains_sublist split: option.splits)

lemma Replace1_prefix: "prefix old s \<Longrightarrow> Replace1 s old new = new @ drop (length old) s"
  by (cases s) (auto simp: prefix_def)

lemma Replace1_strip: "prefix ''strip_'' key \<Longrightarrow> Replace1 key ''strip_'' [] = drop 6 key"
  using Replace1_prefix [of "''strip_''" key "[]"] by (simp add: eval_nat_numeral)

lemma parseDynamicArguments_loop_eq:
  "parseDynamicArguments_loop keys storage result =
     (case find (\<lambda>key. \<not> (prefix ''-'' key \<or> prefix ''strip_'' key) \<and> storage key = None) keys of
        Some key \<Rightarrow> ([], Some (Errorf (''failed to obtain value of key '' @ key)))
      | None \<Rightarrow>
          (result @ map (\<lambda>key. if prefix ''strip_'' key then drop 6 key
                           else if prefix ''-'' key then key
                           else the (storage key)) keys, None))"
proof (induction keys arbitrary: result)
  case Nil
  then show ?case by simp
next
  case (Cons key rest)
  show ?case
  proof (cases "prefix ''strip_'' key")
    case True
    then show ?thesis
      using Cons.IH [of "result @ [drop 6 key]"]
      by (simp add: HasPrefix_def Replace1_strip split: option.splits)
  next
    case False
    then show ?thesis
      using Cons.IH [of "result @ [key]"] Cons.IH [of "result @ [the (storage key)]"]
      by (auto simp: HasPrefix_def Get_def split: option.splits)
  qed
qed

subsection \<open>The known-failure short-circuit\<close>

text \<open>
  Claim C1. Whenever stderr contains one of the substrings listed in
  \<open>CanErrorWithMessage\<close>, \<open>Ensure\<close> returns nil: whatever the exit error, the
  \<open>WantErr\<close> and \<open>CanError\<close> flags, the store, and the Must and Not rules are
  (patterns that do not compile included, since the pattern check is never reached).
\<close>

theorem Ensure_known_failure_passes:
  assumes "\<exists>knownFailure \<in> set (CanErrorWithMessage a). sublist knownFailure stderr"
  shows "Ensure Compile FindStringIndex a stdout stderr err storage args = Return None"
proof -
  from assms have nonempty: "CanErrorWithMessage a \<noteq> []"
    by auto
  from assms have "list_ex (\<lambda>k. Contains stderr k) (CanErrorWithMessage a)"
    by (simp add: list_ex_iff Contains_sublist)
  with nonempty show ?thesis
    by (simp add: Ensure_def)
qed

text \<open>
  An instance: the exit error is unexpected, the expected output is missing, the pattern
  does not compile, and the forbidden stderr text is present; the case still passes.
\<close>

theorem Ensure_known_failure_passes_witness:
  "Ensure (\<lambda>p. if p = ''('' then None else Some p) (\<lambda>re s. None)
     \<lparr>WantErr = False, CanError = False, CanErrorWithMessage = [''illegal option''],
      Must = \<lparr>Output = [''hello''], Errors = [], Dynamic = [''k''], Strict = True, Pattern = [''(''] \<rparr>,
      MustNot = \<lparr>Output = [], Errors = [''ls''], Dynamic = [], Strict = False, Pattern = []\<rparr>\<rparr>
     ''out'' ''ls: illegal option -- i'' (Some ''exit status 1'') Map.empty ''ls -i''
   = Return None"
proof -
  have "sublist ''illegal option'' ''ls: illegal option -- i''"
    by (simp add: Contains_sublist [symmetric])
  then show ?thesis
    by (intro Ensure_known_failure_passes) simp
qed

subsection \<open>The error-expectation check\<close>

text \<open>
  Claim C6. \<open>Ensure\<close> returns the immediate error, whose message embeds the rendered
  command line, the exit error, the \<open>WantErr\<close> flag and the captured stderr, exactly
  when the presence of an exit error differs from \<open>WantErr\<close>, \<open>CanError\<close> is unset
  and \<open>CanErrorWithMessage\<close> is empty. The result then depends on nothing else, so no
  other check has a say; with \<open>CanError\<close> set or a non-empty \<open>CanErrorWithMessage\<close>
  this error is never returned.
\<close>

theorem Ensure_immediate_failure_iff:
  "Ensure Compile FindStringIndex a stdout stderr err storage args =
     Return (Some (Errorf (''command: \"'' @ args @ ''\"\<newline>error = '' @ fmt_v_error err @
                           '', wantErr = '' @ fmt_v_bool (WantErr a) @ '', stderr = '' @ stderr)))
   \<longleftrightarrow> ((err \<noteq> None) \<noteq> WantErr a \<and> \<not> CanError a \<and> CanErrorWithMessage a = [])"
  by (auto simp: Ensure_def Let_def ensureErrorMessage_def NewPrefixedError_def errors_Join_def
           split: outcome.splits option.splits)

theorem Ensure_immediate_failure_iff_witness:
  "Ensure (\<lambda>p. if p = ''('' then None else Some p) (\<lambda>re s. None)
     \<lparr>WantErr = False, CanError = False, CanErrorWithMessage = [],
      Must = \<lparr>Output = [''hello''], Errors = [], Dynamic = [], Strict = False, Pattern = [''(''] \<rparr>,
      MustNot = \<lparr>Output = [], Errors = [], Dynamic = [], Strict = False, Pattern = []\<rparr>\<rparr>
     ''out'' ''boom'' (Some ''exit status 1'') Map.empty ''ecl --pass [REDACTED]''
   = Return (Some (Errorf
       ''command: \"ecl --pass [REDACTED]\"\<newline>error = exit status 1, wantErr = false, stderr = boom''))"
  using Ensure_immediate_failure_iff
    [of "\<lambda>p. if p = ''('' then None else Some p" "\<lambda>re s. None"
        "\<lparr>WantErr = False, CanError = False, CanErrorWithMessage = [],
          Must = \<lparr>Output = [''hello''], Errors = [], Dynamic = [], Strict = False, Pattern = [''(''] \<rparr>,
          MustNot = \<lparr>Output = [], Errors = [], Dynamic = [], Strict = False, Pattern = []\<rparr>\<rparr>"
        "''out''" "''boom''" "Some ''exit status 1''" Map.empty "''ecl --pass [REDACTED]''"]
  by simp

subsection \<open>The must-output check\<close>

text \<open>
  Claim C5. The must-output check passes exactly when every expected string of the
  \<open>Output\<close> list meets its requirement: with \<open>Strict\<close> set, stdout is equal to
  the expected string (containment is not accepted); with \<open>Strict\<close> unset, the
  expected string occurs in stdout as a substring.
\<close>

theorem assertWanted_passes_iff:
  "assertWanted out w = None \<longleftrightarrow>
     (\<forall>want \<in> set (Output w). if Strict w then out = want else sublist want out)"
  by (simp add: assertWanted_None Contains_sublist)

text \<open>Expected \<open>"A\n"\<close> against actual \<open>"A\n\n"\<close>: rejected in strict mode, accepted otherwise;
  an exact match is accepted in strict mode.\<close>

theorem assertWanted_passes_iff_witness:
  "assertWanted ''A\<newline>\<newline>''
     \<lparr>Output = [''A\<newline>''], Errors = [], Dynamic = [], Strict = True, Pattern = []\<rparr> \<noteq> None
   \<and> assertWanted ''A\<newline>''
     \<lparr>Output = [''A\<newline>''], Errors = [], Dynamic = [], Strict = True, Pattern = []\<rparr> = None
   \<and> assertWanted ''A\<newline>\<newline>''
     \<lparr>Output = [''A\<newline>''], Errors = [], Dynamic = [], Strict = False, Pattern = []\<rparr> = None"
  using
    assertWanted_passes_iff [of "''A\<newline>\<newline>''"
      "\<lparr>Output = [''A\<newline>''], Errors = [], Dynamic = [], Strict = True, Pattern = []\<rparr>"]
    assertWanted_passes_iff [of "''A\<newline>''"
      "\<lparr>Output = [''A\<newline>''], Errors = [], Dynamic = [], Strict = True, Pattern = []\<rparr>"]
    assertWanted_passes_iff [of "''A\<newline>\<newline>''"
      "\<lparr>Output = [''A\<newline>''], Errors = [], Dynamic = [], Strict = False, Pattern = []\<rparr>"]
  by (simp add: Contains_sublist [symmetric])

text \<open>
  Claim C10. A strict Must assertion whose \<open>Output\<close> list holds two distinct strings
  cannot be satisfied: the must-output check returns an error for every stdout.
\<close>

theorem assertWanted_strict_two_distinct_unsatisfiable:
  assumes "Strict w" and "a \<in> set (Output w)" and "b \<in> set (Output w)" and "a \<noteq> b"
  shows "\<exists>e. assertWanted out w = Some e"
proof -
  have "\<not> (\<forall>want \<in> set (Output w). out = want)"
    using assms(2-4) by metis
  then have "assertWanted out w \<noteq> None"
    using assms(1) by (simp add: assertWanted_None)
  then show ?thesis
    by auto
qed

theorem assertWanted_strict_two_distinct_unsatisfiable_witness:
  "\<exists>e. assertWanted ''yes''
     \<lparr>Output = [''yes'', ''no''], Errors = [], Dynamic = [], Strict = True, Pattern = []\<rparr> = Some e"
  by (rule assertWanted_strict_two_distinct_unsatisfiable [where a = "''yes''" and b = "''no''"])
     simp_all

subsection \<open>The pattern check\<close>

text \<open>
  Claim C2 says that the pattern check never crashes and that a pattern that does not
  compile is only recorded as an error. The code records the error and then goes on to
  search with the nil expression: the check panics exactly when some pattern of the list
  does not compile.
\<close>

theorem assertPattern_panics_iff:
  "assertPattern Compile FindStringIndex out patterns = Panic \<longleftrightarrow>
     (\<exists>pattern \<in> set patterns. Compile pattern = None)"
proof (cases "assertPattern_loop Compile FindStringIndex out patterns []")
  case Panic
  then show ?thesis
    using assertPattern_loop_Panic [of Compile FindStringIndex out patterns "[]"]
    by (simp add: assertPattern_def)
next
  case (Return errs)
  then show ?thesis
    using assertPattern_loop_Panic [of Compile FindStringIndex out patterns "[]"]
    by (simp add: assertPattern_def)
qed

theorem assertPattern_panics_iff_witness:
  "assertPattern (\<lambda>p. if p = ''('' then None else Some p) (\<lambda>re s. Some (0, 0)) ''out'' [''(''] = Panic"
  using assertPattern_panics_iff
    [of "\<lambda>p. if p = ''('' then None else Some p" "\<lambda>re s. Some (0, 0)" "''out''" "[''('']"]
  by simp

subsection \<open>The must-dynamic check\<close>

text \<open>
  Claim C7. For each key of \<open>Must.Dynamic\<close> the expected value is the store's value
  when the key is present and the key string itself when it is absent. A key is a miss
  when its expected value is not a substring of stdout. The check returns nil exactly when
  there is no miss, and otherwise the prefixed join of one error per miss, in the order of
  the list, each naming its key and its expected value.
\<close>

theorem assertDynamic_misses:
  "assertDynamic out dynamic storage =
     (let misses = filter (\<lambda>key. \<not> sublist (case storage key of Some v \<Rightarrow> v | None \<Rightarrow> key) out) dynamic
      in if misses = [] then None
         else Some (PrefixedError ''must find values from dynamic storage''
                (joinError (map (\<lambda>key. Errorf (''didn't find dynamic key \"'' @ key @ ''\" with value \"'' @
                                (case storage key of Some v \<Rightarrow> v | None \<Rightarrow> key) @
                                ''\" in standard output: \"'' @ out @ ''\"'')) misses))))"
  by (simp add: assertDynamic_def assertDynamic_loop_eq Let_def NewPrefixedError_def errors_Join_def)


theorem assertDynamic_misses_witness:
  "assertDynamic ''id-42 literal'' [''id'', ''literal''] [''id'' \<mapsto> ''id-42''] = None
   \<and> assertDynamic ''id-42'' [''id'', ''literal''] [''id'' \<mapsto> ''id-42''] =
       Some (PrefixedError ''must find values from dynamic storage''
         (joinError [Errorf
           ''didn't find dynamic key \"literal\" with value \"literal\" in standard output: \"id-42\"'']))"
  using
    assertDynamic_misses [of "''id-42 literal''" "[''id'', ''literal'']" "[''id'' \<mapsto> ''id-42'']"]
    assertDynamic_misses [of "''id-42''" "[''id'', ''literal'']" "[''id'' \<mapsto> ''id-42'']"]
  by (simp add: Contains_sublist [symmetric])

section \<open>Properties of the dynamic argument resolver\<close>

text \<open>
  Claim C4. A token is literal when it begins with \<open>-\<close> or with \<open>strip_\<close>. If some
  token is neither literal nor a key of the store, the resolver returns the error naming
  the first such token, with an empty result list. Otherwise it returns, in the order of
  the tokens, the literal tokens themselves (a leading \<open>strip_\<close> removed) and the
  store's values of the others, with no error. Literal tokens are never looked up: the
  outcome is the same for every store that agrees on the tokens that are not literal.
\<close>

theorem parseDynamicArguments_resolves:
  "parseDynamicArguments dynamicArgs storage =
     (case find (\<lambda>key. \<not> (prefix ''-'' key \<or> prefix ''strip_'' key) \<and> storage key = None) dynamicArgs of
        Some key \<Rightarrow> ([], Some (Errorf (''failed to obtain value of key '' @ key)))
      | None \<Rightarrow>
          (map (\<lambda>key. if prefix ''strip_'' key then drop 6 key
                           else if prefix ''-'' key then key
                           else the (storage key)) dynamicArgs, None))
   \<and> (\<forall>storage'. (\<forall>key \<in> set dynamicArgs. \<not> (prefix ''-'' key \<or> prefix ''strip_'' key) \<longrightarrow> storage' key = storage key)
        \<longrightarrow> parseDynamicArguments dynamicArgs storage' = parseDynamicArguments dynamicArgs storage)"
proof -
  have eq: "\<And>st. parseDynamicArguments dynamicArgs st =
     (case find (\<lambda>key. \<not> (prefix ''-'' key \<or> prefix ''strip_'' key) \<and> st key = None) dynamicArgs of
        Some key \<Rightarrow> ([], Some (Errorf (''failed to obtain value of key '' @ key)))
      | None \<Rightarrow>
          (map (\<lambda>key. if prefix ''strip_'' key then drop 6 key
                           else if prefix ''-'' key then key
                           else the (st key)) dynamicArgs, None))"
    by (simp add: parseDynamicArguments_def parseDynamicArguments_loop_eq split: option.splits)
  have indep: "parseDynamicArguments dynamicArgs storage' = parseDynamicArguments dynamicArgs storage"
    if h: "\<forall>key \<in> set dynamicArgs. \<not> (prefix ''-'' key \<or> prefix ''strip_'' key) \<longrightarrow> storage' key = storage key"
    for storage'
  proof -
    have f: "find (\<lambda>key. \<not> (prefix ''-'' key \<or> prefix ''strip_'' key) \<and> storage' key = None) dynamicArgs
        = find (\<lambda>key. \<not> (prefix ''-'' key \<or> prefix ''strip_'' key) \<and> storage key = None) dynamicArgs"
      using h by (intro find_cong) auto
    have m: "map (\<lambda>key. if prefix ''strip_'' key then drop 6 key
                           else if prefix ''-'' key then key
                           else the (storage' key)) dynamicArgs
         = map (\<lambda>key. if prefix ''strip_'' key then drop 6 key
                           else if prefix ''-'' key then key
                           else the (storage key)) dynamicArgs"
      using h by (intro map_cong) auto
    show ?thesis unfolding eq f m ..
  qed
  show ?thesis using eq indep by blast
qed


theorem parseDynamicArguments_resolves_witness:
  "parseDynamicArguments [''akey'', ''strip_stripped_key'', ''-v''] [''akey'' \<mapsto> ''avalue'']
     = ([''avalue'', ''stripped_key'', ''-v''], None)
   \<and> parseDynamicArguments [''akey'', ''unexisting key'', ''-v''] [''akey'' \<mapsto> ''avalue'']
     = ([], Some (Errorf ''failed to obtain value of key unexisting key''))
   \<and> parseDynamicArguments [''akey'', ''-v''] [''akey'' \<mapsto> ''avalue'', ''-v'' \<mapsto> ''verbose'']
     = parseDynamicArguments [''akey'', ''-v''] [''akey'' \<mapsto> ''avalue'']"
proof -
  have "parseDynamicArguments [''akey'', ''strip_stripped_key'', ''-v''] [''akey'' \<mapsto> ''avalue'']
     = ([''avalue'', ''stripped_key'', ''-v''], None)"
    using parseDynamicArguments_resolves
      [of "[''akey'', ''strip_stripped_key'', ''-v'']" "[''akey'' \<mapsto> ''avalue'']", THEN conjunct1]
    by simp
  moreover
  have "parseDynamicArguments [''akey'', ''unexisting key'', ''-v''] [''akey'' \<mapsto> ''avalue'']
     = ([], Some (Errorf ''failed to obtain value of key unexisting key''))"
    using parseDynamicArguments_resolves
      [of "[''akey'', ''unexisting key'', ''-v'']" "[''akey'' \<mapsto> ''avalue'']", THEN conjunct1]
    by simp
  moreover
  have "parseDynamicArguments [''akey'', ''-v''] [''akey'' \<mapsto> ''avalue'', ''-v'' \<mapsto> ''verbose'']
     = parseDynamicArguments [''akey'', ''-v''] [''akey'' \<mapsto> ''avalue'']"
    by (rule parseDynamicArguments_resolves [THEN conjunct2, rule_format]) auto
  ultimately show ?thesis
    by simp
qed

section \<open>Properties of the redaction\<close>

lemma matchPassFlag_prefix: "matchPassFlag s = Some rest \<Longrightarrow> prefix ''--pas'' s"
  by (simp add: matchPassFlag_def split: if_splits)

lemma redactPasswordFlag_unchanged:
  "\<not> sublist ''--pas'' s \<Longrightarrow> redactPasswordFlag s = s"
proof (induction s rule: redactPasswordFlag.induct)
  case 1
  show ?case by simp
next
  case (2 c cs)
  from 2(3) have "\<not> prefix ''--pas'' (c # cs)"
    using prefix_imp_sublist by blast
  then have none: "matchPassFlag (c # cs) = None"
    using matchPassFlag_prefix [of "c # cs"] by (cases "matchPassFlag (c # cs)") auto
  from 2(3) have "\<not> sublist ''--pas'' cs"
    by (simp add: sublist_Cons_right)
  with 2(1) [OF none] none show ?case
    by simp
qed

lemma matchSepValue_value:
  assumes "sep = CHR '' '' \<or> sep = CHR ''=''" and "v \<noteq> []" and "CHR '' '' \<notin> set v"
    and "post = [] \<or> hd post = CHR '' ''"
  shows "matchSepValue (sep # v @ post) = Some post"
proof -
  from assms(2) obtain v0 vs where v: "v = v0 # vs"
    by (cases v) auto
  have "dropWhile (\<lambda>c. c \<noteq> CHR '' '') (v @ post) = dropWhile (\<lambda>c. c \<noteq> CHR '' '') post"
    using assms(3) by (intro dropWhile_append2) auto
  also have "\<dots> = post"
    using assms(4) by (cases post) auto
  finally have "dropWhile (\<lambda>c. c \<noteq> CHR '' '') (v @ post) = post" .
  then show ?thesis
    using assms(1,3) v by (auto simp: matchSepValue_def)
qed

lemma matchPassFlag_pass:
  assumes "sep = CHR '' '' \<or> sep = CHR ''=''" and "v \<noteq> []" and "CHR '' '' \<notin> set v"
    and "post = [] \<or> hd post = CHR '' ''"
  shows "matchPassFlag (''--pass'' @ sep # v @ post) = Some post"
  using matchSepValue_value [OF assms] by (simp add: matchPassFlag_def)

lemma matchPassFlag_None: "\<not> prefix ''--pas'' s \<Longrightarrow> matchPassFlag s = None"
  by (simp add: matchPassFlag_def)

lemma no_straddle:
  assumes "pre \<noteq> []" and "prefix ''--pas'' (pre @ ''--pass'' @ rest)"
  shows "sublist ''--pas'' pre"
proof -
  from assms(2) consider "prefix ''--pas'' pre"
    | us where "''--pas'' = pre @ us" and "prefix us (''--pass'' @ rest)"
    by (auto simp: prefix_append)
  then show ?thesis
  proof cases
    case 1
    then show ?thesis by (rule prefix_imp_sublist)
  next
    case 2
    with assms(1) have "pre = ''--pas''"
      by (auto simp: Cons_eq_append_conv)
    then show ?thesis by simp
  qed
qed

text \<open>
  The first \<^verbatim>\<open>--pass\<close> flag of a command line, in either form, is redacted together with
  its value, the value being the run of characters up to the next space.
\<close>

lemma redactPasswordFlag_first_flag:
  assumes "\<not> sublist ''--pas'' pre"
    and "sep = CHR '' '' \<or> sep = CHR ''=''" and "v \<noteq> []" and "CHR '' '' \<notin> set v"
    and "post = [] \<or> hd post = CHR '' ''"
  shows "redactPasswordFlag (pre @ ''--pass'' @ sep # v @ post) =
         pre @ ''--pass [REDACTED]'' @ redactPasswordFlag post"
  using assms(1)
proof (induction pre)
  case Nil
  show ?case
    using matchPassFlag_pass [OF assms(2-5)] by simp
next
  case (Cons c pre)
  have "\<not> prefix ''--pas'' ((c # pre) @ ''--pass'' @ sep # v @ post)"
    using no_straddle [of "c # pre" "sep # v @ post"] Cons.prems by auto
  then have "matchPassFlag ((c # pre) @ ''--pass'' @ sep # v @ post) = None"
    by (rule matchPassFlag_None)
  then have none: "matchPassFlag (c # pre @ ''--pass'' @ sep # v @ post) = None"
    by simp
  from Cons.prems have "\<not> sublist ''--pas'' pre"
    by (simp add: sublist_Cons_right)
  from Cons.IH [OF this] none show ?case
    by simp
qed

text \<open>The two cases of \<open>Test_redactPasswordFlag\<close>.\<close>

lemma redactPasswordFlag_tests:
  "redactPasswordFlag ''ecl --host http://somehost --user admin --pass MySuperSecretPassword platform info''
     = ''ecl --host http://somehost --user admin --pass [REDACTED] platform info''"
  "redactPasswordFlag ''ecl --host http://somehost --user admin --pass=MySuperSecretPassword platform info''
     = ''ecl --host http://somehost --user admin --pass [REDACTED] platform info''"
  by (simp_all add: matchPassFlag_def matchSepValue_def)

text \<open>
  Claim C8 says that the value of a \<^verbatim>\<open>--pass\<close> flag is replaced and that every part of
  the string that is not such a flag with its value is left unchanged. The expression makes
  the final \<^verbatim>\<open>s\<close> of the flag optional: in a command line that holds no \<^verbatim>\<open>--pass\<close>
  flag at all, the argument \<^verbatim>\<open>--pas\<close> and the argument after it are rewritten.
\<close>

theorem redactPasswordFlag_rewrites_pas:
  "\<not> sublist ''--pass'' ''ecl --pas x'' \<and>
   redactPasswordFlag ''ecl --pas x'' = ''ecl --pass [REDACTED]''"
proof -
  have "\<not> sublist ''--pass'' ''ecl --pas x''"
    by (simp add: Contains_sublist [symmetric])
  moreover have "redactPasswordFlag ''ecl --pas x'' = ''ecl --pass [REDACTED]''"
    by (simp add: matchPassFlag_def matchSepValue_def)
  ultimately show ?thesis
    by (rule conjI)
qed

theorem redactPasswordFlag_rewrites_pas_witness:
  "redactPasswordFlag ''ecl --pas x'' \<noteq> ''ecl --pas x''"
  using redactPasswordFlag_rewrites_pas by (simp add: matchPassFlag_def matchSepValue_def)

section \<open>Properties of the binary locator\<close>

lemma walk_no_match:
  "\<not> hasBinary binary (baseName path) n \<Longrightarrow> walk p binary path n bp = (Nil, bp)"
  "\<not> hasBinaryEntries binary entries \<Longrightarrow> walkEntries p binary path entries bp = (Nil, bp)"
proof (induction p binary path n bp and p binary path entries bp rule: walk_walkEntries.induct)
  case (1 p binary path binaryPath)
  then show ?case by (simp add: walkFn_def)
next
  case (2 p binary path entries binaryPath)
  then show ?case by (simp add: walkFn_def)
next
  case (3 p binary path binaryPath)
  then show ?case by simp
next
  case (4 p binary path name n rest binaryPath)
  from 4(4) have a: "\<not> hasBinary binary (baseName (path @ [name])) n"
    and b: "\<not> hasBinaryEntries binary rest"
    by (simp_all add: baseName_def)
  from 4(1) [OF a] have w: "walk p binary (path @ [name]) n binaryPath = (Nil, binaryPath)" .
  from 4(2) [OF w [symmetric] refl b] show ?case
    using w by simp
qed

lemma hasBinaryEntries_map_of:
  "\<not> hasBinaryEntries binary entries \<Longrightarrow> map_of entries name = Some n \<Longrightarrow>
   \<not> hasBinary binary name n"
  by (induction entries) (auto split: if_splits)

lemma lookup_no_match:
  "\<not> hasBinary binary nm fs \<Longrightarrow> lookup fs p = Some n \<Longrightarrow>
   \<not> hasBinary binary (if p = [] then nm else last p) n"
proof (induction p arbitrary: fs nm)
  case Nil
  then show ?case by simp
next
  case (Cons name names)
  from Cons.prems(2) obtain entries m where fs: "fs = Directory entries"
    and m: "map_of entries name = Some m" and l: "lookup m names = Some n"
    by (cases fs) (auto split: option.splits)
  from Cons.prems(1) fs have "\<not> hasBinaryEntries binary entries"
    by simp
  from hasBinaryEntries_map_of [OF this m] have "\<not> hasBinary binary name m" .
  from Cons.IH [OF this l] show ?case
    by auto
qed

lemma lookup_parent:
  "lookup fs p = Some n \<Longrightarrow> \<exists>m. lookup fs (butlast p) = Some m"
proof (induction p arbitrary: fs)
  case Nil
  then show ?case by simp
next
  case (Cons name names)
  then show ?case
    by (cases fs) (auto split: option.splits)
qed

text \<open>A call that returns was given a tree that holds the binary, or a path that does not exist.\<close>

lemma FindBinaryPath_returns:
  assumes ret: "FindBinaryPath fs p binary = Some r"
  shows "hasBinary binary ''/'' fs \<or> lookup fs p = None"
proof (rule FindBinaryPath.raw_induct
    [where P = "\<lambda>fs p binary r. hasBinary binary ''/'' fs \<or> lookup fs p = None", OF _ ret])
  fix f :: "node \<Rightarrow> string list \<Rightarrow> string \<Rightarrow> (string \<times> error option) outcome option"
  fix fs p binary r
  assume IH: "\<And>fs p binary r. f fs p binary = Some r \<Longrightarrow>
    hasBinary binary ''/'' fs \<or> lookup fs p = None"
  assume step: "(case Walk fs p binary of
        Panic \<Rightarrow> Some Panic
      | Return (err, binaryPath) \<Rightarrow>
          if err \<noteq> None then Some (Return ([], err))
          else if binaryPath = []
          then Option.bind (f fs (filepath_Dir p) binary)
                 (\<lambda>r. case r of
                         Panic \<Rightarrow> Some Panic
                       | Return (binaryPath1, err1) \<Rightarrow>
                           Some (Return (filepath_Join ''..'' binaryPath1, err1)))
          else Some (Return (binaryPath, None))) = Some r"
  show "hasBinary binary ''/'' fs \<or> lookup fs p = None"
  proof (rule ccontr)
    assume "\<not> (hasBinary binary ''/'' fs \<or> lookup fs p = None)"
    then have nb: "\<not> hasBinary binary ''/'' fs" and "lookup fs p \<noteq> None"
      by auto
    then obtain n where n: "lookup fs p = Some n"
      by auto
    from lookup_no_match [OF nb n] have "\<not> hasBinary binary (baseName p) n"
      by (simp add: baseName_def)
    then have "walk p binary p n [] = (Nil, [])"
      by (rule walk_no_match)
    then have W: "Walk fs p binary = Return (None, [])"
      by (simp add: Walk_def n)
    from lookup_parent [OF n] obtain m where m: "lookup fs (filepath_Dir p) = Some m"
      by (auto simp: filepath_Dir_def)
    from step W obtain r' where "f fs (filepath_Dir p) binary = Some r'"
      by (auto simp: bind_eq_Some_conv)
    from IH [OF this] nb m show False
      by simp
  qed
qed

text \<open>
  The case of \<open>TestFindEclPath\<close>: from \<^verbatim>\<open>/repo/pkg/engine\<close> the binary is found in the
  parent directory.
\<close>

lemma FindBinaryPath_test:
  "FindBinaryPath
     (Directory [(''repo'', Directory [(''pkg'', Directory
        [(''apath'', Directory [(''aweirdbinaryname'', File)]),
         (''engine'', Directory [(''execution.go'', File)])])])])
     [''repo'', ''pkg'', ''engine''] ''aweirdbinaryname''
   = Some (Return (''../apath/aweirdbinaryname'', None))"
  by (simp add: FindBinaryPath.simps Walk_def walkFn_def baseName_def filepath_Rel_def
        filepath_Dir_def filepath_Join_def)

text \<open>
  Claim C3 says that the search returns a not-found error when no file of that name exists
  anywhere up to the root. The code has no case for the root: the parent of the root is
  the root, and the search is started on the parent again and again. From every existing
  starting directory of a tree without such a file, the call does not return.
\<close>

theorem FindBinaryPath_no_match_diverges:
  assumes "\<not> hasBinary binary ''/'' fs" and "lookup fs p \<noteq> None"
  shows "FindBinaryPath fs p binary = None"
proof (cases "FindBinaryPath fs p binary")
  case None
  then show ?thesis .
next
  case (Some r)
  from FindBinaryPath_returns [OF Some] assms show ?thesis
    by simp
qed

theorem FindBinaryPath_no_match_diverges_witness:
  "FindBinaryPath
     (Directory [(''repo'', Directory [(''pkg'', Directory
        [(''engine'', Directory [(''execution.go'', File)])])])])
     [''repo'', ''pkg'', ''engine''] ''ecl'' = None"
  by (rule FindBinaryPath_no_match_diverges) simp_all

section \<open>Properties of the process runner\<close>

text \<open>
  Claim C9 says that a start failure that does not match the want-error flag is reported
  as a fatal failure that aborts the case. The code reports it with \<open>t.Errorf\<close>: the
  test is marked as failed and \<open>runCommand\<close> returns to its caller.
\<close>

theorem runCommand_start_failure_returns:
  "runCommand
     (\<lambda>bin args. \<lparr>cmdRun = ('''', '''', Some ''exec: not found''), cmdStdinPipe = None,
        cmdStart = Some ''exec: not found'', cmdStarted = ('''', ''''),
        cmdWait = (\<lambda>written. ('''', '''', Some ''exec: not started''))\<rparr>)
     \<lparr>failed = False, logs = []\<rparr> ''ecl'' 3 [''login'', ''--pass'', ''s3cret''] [''y''] False
   = Returns
       \<lparr>failed = True,
        logs = [''[Test 3]['' @ failRed @
          '']: Command ecl login --pass [REDACTED] error = exec: not found, wantErr = false, stderr = '']\<rparr>
       ('''', '''', Some ''exec: not found'')"
  by (simp add: runCommand_def T_Errorf_def fmt_d.simps matchPassFlag_def matchSepValue_def)

text \<open>
  Claim C9, amended. With interactive lines supplied and the stdin pipe created, when
  the process fails to start and no error is wanted, \<open>runCommand\<close> logs the failure on
  the test handle and marks the test as failed, without ending the test function, and
  returns to its caller the two buffers as they are after the start, with the start error.
\<close>

theorem runCommand_start_failure:
  assumes "interactive \<noteq> []" and "cmdStdinPipe (exec_Command bin args) = None"
    and "cmdStart (exec_Command bin args) = Some e" and "\<not> wantErr"
  shows "runCommand exec_Command t bin testN args interactive wantErr =
     Returns (t\<lparr>failed := True,
                logs := logs t @
                  [''[Test '' @ fmt_d testN @ '']['' @ failRed @ '']: Command '' @ bin @ '' '' @
                   redactPasswordFlag (strings_Join args '' '') @ '' error = '' @ e @
                   '', wantErr = false, stderr = '' @ snd (cmdStarted (exec_Command bin args))]\<rparr>)
       (fst (cmdStarted (exec_Command bin args)), snd (cmdStarted (exec_Command bin args)), Some e)"
  using assms by (simp add: runCommand_def Let_def T_Errorf_def split: prod.splits)

theorem runCommand_start_failure_witness:
  "runCommand
     (\<lambda>bin args. \<lparr>cmdRun = ('''', '''', None), cmdStdinPipe = None,
        cmdStart = Some ''fork/exec ./bin/ecl: permission denied'', cmdStarted = ('''', ''''),
        cmdWait = (\<lambda>written. ('''', '''', None))\<rparr>)
     \<lparr>failed = False, logs = [''previous'']\<rparr> ''./bin/ecl'' 12 [''init''] [''y'', ''n''] False
   = Returns
       \<lparr>failed = True,
        logs = [''previous'', ''[Test 12]['' @ failRed @
          '']: Command ./bin/ecl init error = fork/exec ./bin/ecl: permission denied, '' @
          ''wantErr = false, stderr = '']\<rparr>
       ('''', '''', Some ''fork/exec ./bin/ecl: permission denied'')"
proof -
  have d: "fmt_d 12 = ''12''"
    by (simp add: fmt_d.simps)
  show ?thesis
    using runCommand_start_failure
      [of "[''y'', ''n'']"
          "\<lambda>bin args. \<lparr>cmdRun = ('''', '''', None), cmdStdinPipe = None,
             cmdStart = Some ''fork/exec ./bin/ecl: permission denied'', cmdStarted = ('''', ''''),
             cmdWait = (\<lambda>written. ('''', '''', None))\<rparr>"
          "''./bin/ecl''" "[''init'']" "''fork/exec ./bin/ecl: permission denied''" False
          "\<lparr>failed = False, logs = [''previous'']\<rparr>" 12]
    by (simp add: d matchPassFlag_def)
qed

end
